theory Spec2Isabelle
  imports Main
begin

section \<open>Values shared by the packages\<close>

text \<open>
  The framework types \<open>service.Host\<close>, \<open>tally.Scope\<close>, \<open>uhttp.Filter\<close> and \<open>error\<close> are
  interfaces declared outside the files verified here. Their non-nil values are modelled
  as named handles; a Go value that may be \<open>nil\<close> is an \<open>option\<close>, with \<open>None\<close> for
  \<open>nil\<close>. The only method of a host that the code calls is \<open>Metrics()\<close>.
\<close>

datatype Scope = Scope nat

datatype Host = MkHost (hostName: string) (Metrics: Scope)

datatype Filter = Filter nat

datatype error = Error string

text \<open>
  A Go slice is \<open>nil\<close> or a sequence of elements. The built-in \<open>append\<close> returns its first
  argument when there is nothing to append (so \<open>nil\<close> stays \<open>nil\<close>), and otherwise a slice
  holding the old elements followed by the new ones.
\<close>

datatype 'a slice = NilSlice | Slice "'a list"

fun elems :: "'a slice \<Rightarrow> 'a list" where
  "elems NilSlice = []"
| "elems (Slice xs) = xs"

definition append_slice :: "'a slice \<Rightarrow> 'a list \<Rightarrow> 'a slice" where
  "append_slice s xs = (if xs = [] then s else Slice (elems s @ xs))"

text \<open>
  A value of type \<open>interface{}\<close>: the nil interface, a value of dynamic type \<open>[]Filter\<close>
  (possibly the nil slice of that type), a string, or a value of some other dynamic type,
  identified by a handle.
\<close>

datatype iface = NilIface | FilterSlice "Filter slice" | StringValue string | OtherValue nat

text \<open>
  \<open>service.ModuleCreateInfo\<close>, with the two fields the code reads and writes. \<open>Items\<close> is
  a Go map, which may be \<open>nil\<close>: reading a nil map finds no key.
\<close>

record ModuleCreateInfo =
  Host :: Host
  Items :: "(string \<rightharpoonup> iface) option"

section \<open>Package task: the backend singleton\<close>

text \<open>
  A \<open>Backend\<close> value is a reference. \<open>NopBackend\<close> is the reference \<open>&NopBackend{}\<close> that
  the package variable \<open>_globalBackend\<close> is initialised with; every other backend is a
  handle. A factory (\<open>BackendCreateFunc\<close>) takes the host and returns Go's pair of a
  backend (possibly nil) and an error (possibly nil). Factories that panic or do not
  return are outside this model.
\<close>

datatype Backend = NopBackend | CustomBackend nat

type_synonym BackendCreateFunc = "Host \<Rightarrow> Backend option \<times> error option"

text \<open>
  \<open>modules.NewModuleBase\<close> is declared outside the files verified here; the model keeps
  the three arguments it is called with.
\<close>

record ModuleBase =
  mbName :: string
  mbHost :: Host
  mbRoles :: "string list"

definition NewModuleBase :: "string \<Rightarrow> Host \<Rightarrow> string list \<Rightarrow> ModuleBase" where
  "NewModuleBase name host roles = \<lparr>mbName = name, mbHost = host, mbRoles = roles\<rparr>"

record AsyncModule =
  Backend :: "Backend option"
  modBase :: ModuleBase

text \<open>
  The package variables. \<open>once\<close> is the state of \<open>_once\<close>: whether \<open>Do\<close> has been called.
  \<open>taskMetrics\<close> lists the scopes handed to \<open>stats.SetupTaskMetrics\<close>. \<open>factoryRuns\<close> is
  not a variable of the program: it records the result of every execution of a factory,
  in order, so that "the factory executes at most once" can be stated.
\<close>

record TaskGlobals =
  globalBackend :: "Backend option"
  asyncMod :: "AsyncModule option"
  asyncModErr :: "error option"
  once :: bool
  taskMetrics :: "Scope list"
  factoryRuns :: "(Backend option \<times> error option) list"

definition initGlobals :: TaskGlobals where
  "initGlobals = \<lparr>globalBackend = Some NopBackend, asyncMod = None, asyncModErr = None,
     once = False, taskMetrics = [], factoryRuns = []\<rparr>"

definition SetupTaskMetrics :: "Scope \<Rightarrow> TaskGlobals \<Rightarrow> TaskGlobals" where
  "SetupTaskMetrics scope s = s\<lparr>taskMetrics := taskMetrics s @ [scope]\<rparr>"

text \<open>\<open>GlobalBackend\<close> reads the variable under the read lock.\<close>

definition GlobalBackend :: "TaskGlobals \<Rightarrow> Backend option" where
  "GlobalBackend s = globalBackend s"

text \<open>Running a factory: its result, and the record of the execution.\<close>

definition runFactory ::
  "BackendCreateFunc \<Rightarrow> Host \<Rightarrow> TaskGlobals \<Rightarrow> (Backend option \<times> error option) \<times> TaskGlobals" where
  "runFactory createFunc host s =
     (createFunc host, s\<lparr>factoryRuns := factoryRuns s @ [createFunc host]\<rparr>)"

definition newAsyncModule ::
  "ModuleCreateInfo \<Rightarrow> BackendCreateFunc \<Rightarrow> TaskGlobals
     \<Rightarrow> (AsyncModule option \<times> error option) \<times> TaskGlobals" where
  "newAsyncModule mi createFunc s =
     (let s1 = SetupTaskMetrics (Metrics (Host mi)) s;
          ((backend, err), s2) = runFactory createFunc (Host mi) s1
      in if err \<noteq> None then ((None, err), s2)
         else ((Some \<lparr>Backend = backend, modBase = NewModuleBase ''task'' (Host mi) []\<rparr>, None),
               s2\<lparr>globalBackend := backend\<rparr>))"

text \<open>
  \<open>sync.Once.Do\<close>: the function runs if and only if \<open>Do\<close> is called for the first time
  on this \<open>Once\<close>; callers are serialised, so a call is one step.
\<close>

definition once_Do :: "(TaskGlobals \<Rightarrow> TaskGlobals) \<Rightarrow> TaskGlobals \<Rightarrow> TaskGlobals" where
  "once_Do f s = (if once s then s else (f s)\<lparr>once := True\<rparr>)"

definition newAsyncModuleSingleton ::
  "ModuleCreateInfo \<Rightarrow> BackendCreateFunc \<Rightarrow> TaskGlobals
     \<Rightarrow> (AsyncModule option \<times> error option) \<times> TaskGlobals" where
  "newAsyncModuleSingleton mi createFunc s =
     (let s' = once_Do (\<lambda>t. case newAsyncModule mi createFunc t of
                              ((m, e), t') \<Rightarrow> t'\<lparr>asyncMod := m, asyncModErr := e\<rparr>) s
      in ((asyncMod s', asyncModErr s'), s'))"

definition NewModule ::
  "BackendCreateFunc \<Rightarrow> ModuleCreateInfo \<Rightarrow> TaskGlobals
     \<Rightarrow> (AsyncModule option list \<times> error option) \<times> TaskGlobals" where
  "NewModule createFunc mi s =
     (case newAsyncModuleSingleton mi createFunc s of
        ((mod', err), s') \<Rightarrow> (([mod'], err), s'))"

subsection \<open>Sequences of calls\<close>

text \<open>
  A client of the package calls the function returned by \<open>NewModule\<close> and calls
  \<open>GlobalBackend\<close>, in any order; each call answers with what it returns.
\<close>

datatype Call = Install BackendCreateFunc ModuleCreateInfo | Current

datatype Reply = Modules "AsyncModule option list" "error option" | Got "Backend option"

fun isModules :: "Reply \<Rightarrow> bool" where
  "isModules (Modules ms e) = True"
| "isModules (Got b) = False"

fun call :: "Call \<Rightarrow> TaskGlobals \<Rightarrow> Reply \<times> TaskGlobals" where
  "call (Install createFunc mi) s =
     (case NewModule createFunc mi s of ((ms, err), s') \<Rightarrow> (Modules ms err, s'))"
| "call Current s = (Got (GlobalBackend s), s)"

fun run :: "Call list \<Rightarrow> TaskGlobals \<Rightarrow> Reply list \<times> TaskGlobals" where
  "run [] s = ([], s)"
| "run (c # cs) s =
     (case call c s of (r, s1) \<Rightarrow> (case run cs s1 of (rs, s2) \<Rightarrow> (r # rs, s2)))"

fun firstInstall :: "Call list \<Rightarrow> (BackendCreateFunc \<times> ModuleCreateInfo) option" where
  "firstInstall [] = None"
| "firstInstall (Install createFunc mi # cs) = Some (createFunc, mi)"
| "firstInstall (Current # cs) = firstInstall cs"


subsection \<open>Example inputs\<close>

text \<open>
  Concrete inputs for the closed instances below: a host, a creation record, a factory
  that returns an in-memory backend, one that returns the no-op backend the package
  starts with (as a factory returning \<open>GlobalBackend()\<close> does), and one that fails.
\<close>

definition exampleHost :: Host where
  "exampleHost = MkHost ''svc'' (Scope 0)"

definition exampleInfo :: ModuleCreateInfo where
  "exampleInfo = \<lparr>Host = exampleHost, Items = None\<rparr>"

definition memBackendFn :: BackendCreateFunc where
  "memBackendFn host = (Some (CustomBackend 1), None)"

definition nopBackendFn :: BackendCreateFunc where
  "nopBackendFn host = (Some NopBackend, None)"

definition errBackendFn :: BackendCreateFunc where
  "errBackendFn host = (None, Some (Error ''bkend err''))"

definition memModule :: AsyncModule where
  "memModule = \<lparr>Backend = Some (CustomBackend 1), modBase = NewModuleBase ''task'' exampleHost []\<rparr>"

definition nopModule :: AsyncModule where
  "nopModule = \<lparr>Backend = Some NopBackend, modBase = NewModuleBase ''task'' exampleHost []\<rparr>"

definition memGlobals :: TaskGlobals where
  "memGlobals = \<lparr>globalBackend = Some (CustomBackend 1), asyncMod = Some memModule,
     asyncModErr = None, once = True, taskMetrics = [Scope 0],
     factoryRuns = [(Some (CustomBackend 1), None)]\<rparr>"

definition nopGlobals :: TaskGlobals where
  "nopGlobals = \<lparr>globalBackend = Some NopBackend, asyncMod = Some nopModule,
     asyncModErr = None, once = True, taskMetrics = [Scope 0],
     factoryRuns = [(Some NopBackend, None)]\<rparr>"

definition errGlobals :: TaskGlobals where
  "errGlobals = \<lparr>globalBackend = Some NopBackend, asyncMod = None,
     asyncModErr = Some (Error ''bkend err''), once = True, taskMetrics = [Scope 0],
     factoryRuns = [(None, Some (Error ''bkend err''))]\<rparr>"

definition exampleCalls :: "Call list" where
  "exampleCalls = [Current, Install memBackendFn exampleInfo, Install errBackendFn exampleInfo,
     Current, Install nopBackendFn exampleInfo]"

definition exampleError :: error where
  "exampleError = Error ''bkend err''"

definition errCalls :: "Call list" where
  "errCalls = [Current, Install errBackendFn exampleInfo, Current,
     Install memBackendFn exampleInfo, Current]"

definition laterCalls :: "Call list" where
  "laterCalls = [Install errBackendFn exampleInfo, Current, Install nopBackendFn exampleInfo,
     Current]"

section \<open>Package uhttp: the filter option\<close>

text \<open>
  A panic of the Go runtime, by its cause: a failed type assertion, \<open>make\<close> with a
  negative length, an index out of range, \<open>rand.Intn\<close> with a non-positive bound.
\<close>

datatype panic = TypeAssertionPanic | MakeSlicePanic | IndexPanic | IntnPanic

definition filterKey :: string where
  "filterKey = ''uhttpFilter''"

text \<open>Reading a Go map: a nil map has no keys.\<close>

definition map_lookup :: "(string \<rightharpoonup> iface) option \<Rightarrow> string \<Rightarrow> iface option" where
  "map_lookup m k = (case m of None \<Rightarrow> None | Some m' \<Rightarrow> m' k)"

text \<open>
  \<open>filtersFromCreateInfo\<close>, as on the \<open>HEAD\<close> side of the file: the lookup, the early
  return of \<open>nil\<close>, and the unchecked assertion \<open>items.([]Filter)\<close>, which panics on
  every value whose dynamic type is not \<open>[]Filter\<close>, the nil interface included.
\<close>

definition filtersFromCreateInfo :: "ModuleCreateInfo \<Rightarrow> panic + Filter slice" where
  "filtersFromCreateInfo mci =
     (case map_lookup (Items mci) filterKey of
        None \<Rightarrow> Inr NilSlice
      | Some items \<Rightarrow>
          (case items of FilterSlice fs \<Rightarrow> Inr fs | _ \<Rightarrow> Inl TypeAssertionPanic))"

text \<open>
  The option returned by \<open>WithFilters fs\<close>, applied to a creation record: it returns the
  panic, or the option's error (always \<open>nil\<close>) and the record as the option leaves it.
\<close>

definition WithFilters ::
  "Filter list \<Rightarrow> ModuleCreateInfo \<Rightarrow> panic + (error option \<times> ModuleCreateInfo)" where
  "WithFilters fs mci =
     (case filtersFromCreateInfo mci of
        Inl p \<Rightarrow> Inl p
      | Inr filters \<Rightarrow>
          (let filters' = append_slice filters fs;
               mci1 = (if Items mci = None then mci\<lparr>Items := Some Map.empty\<rparr> else mci);
               items = (case Items mci1 of None \<Rightarrow> Map.empty | Some m \<Rightarrow> m)
           in Inr (None, mci1\<lparr>Items := Some (items(filterKey \<mapsto> FilterSlice filters'))\<rparr>)))"

text \<open>
  Applying options one after the other to the same record, as long as none panics or
  returns an error.
\<close>

fun applyOptions ::
  "(ModuleCreateInfo \<Rightarrow> panic + (error option \<times> ModuleCreateInfo)) list
     \<Rightarrow> ModuleCreateInfo \<Rightarrow> panic + (error option \<times> ModuleCreateInfo)" where
  "applyOptions [] mci = Inr (None, mci)"
| "applyOptions (opt # opts) mci =
     (case opt mci of
        Inl p \<Rightarrow> Inl p
      | Inr (Some e, mci') \<Rightarrow> Inr (Some e, mci')
      | Inr (None, mci') \<Rightarrow> applyOptions opts mci')"

text \<open>Example records: one that holds a filter, one that holds a value of another type under the filter key.\<close>

definition exampleFilters :: "Filter list" where
  "exampleFilters = [Filter 1, Filter 2]"

definition filterInfo :: ModuleCreateInfo where
  "filterInfo = \<lparr>Host = exampleHost, Items = Some [filterKey \<mapsto> FilterSlice (Slice [Filter 0])]\<rparr>"

definition badInfo :: ModuleCreateInfo where
  "badInfo = \<lparr>Host = exampleHost, Items = Some [filterKey \<mapsto> OtherValue 7]\<rparr>"

definition exampleFilterLists :: "Filter list list" where
  "exampleFilterLists = [[Filter 1], [], [Filter 2, Filter 3]]"

section \<open>Package testutils: random service names\<close>












section \<open>Properties of the backend singleton\<close>

subsection \<open>What one call does\<close>

lemma NewModule_done:
  "once s \<Longrightarrow> NewModule createFunc mi s = (([asyncMod s], asyncModErr s), s)"
  by (simp add: NewModule_def newAsyncModuleSingleton_def once_Do_def)

lemma NewModule_first:
  assumes "\<not> once s"
  shows "NewModule createFunc mi s =
    (case createFunc (Host mi) of
       (backend, None) \<Rightarrow>
         (([Some \<lparr>Backend = backend, modBase = NewModuleBase ''task'' (Host mi) []\<rparr>], None),
          s\<lparr>taskMetrics := taskMetrics s @ [Metrics (Host mi)],
            factoryRuns := factoryRuns s @ [createFunc (Host mi)],
            globalBackend := backend,
            asyncMod := Some \<lparr>Backend = backend, modBase = NewModuleBase ''task'' (Host mi) []\<rparr>,
            asyncModErr := None, once := True\<rparr>)
     | (backend, Some e) \<Rightarrow>
         (([None], Some e),
          s\<lparr>taskMetrics := taskMetrics s @ [Metrics (Host mi)],
            factoryRuns := factoryRuns s @ [createFunc (Host mi)],
            asyncMod := None, asyncModErr := Some e, once := True\<rparr>))"
  using assms
  by (simp add: NewModule_def newAsyncModuleSingleton_def once_Do_def newAsyncModule_def
      runFactory_def SetupTaskMetrics_def split: prod.splits option.splits)

lemma call_done:
  "once s \<Longrightarrow> call c s =
     (case c of Install createFunc mi \<Rightarrow> Modules [asyncMod s] (asyncModErr s)
              | Current \<Rightarrow> Got (globalBackend s), s)"
  by (cases c) (simp_all add: NewModule_done GlobalBackend_def)

lemma once_init: "\<not> once initGlobals"
  by (simp add: initGlobals_def)

subsection \<open>What a sequence of calls does\<close>

lemma run_Cons:
  "run (c # cs) s = (fst (call c s) # fst (run cs (snd (call c s))), snd (run cs (snd (call c s))))"
  by (simp add: case_prod_beta)

lemma run_done:
  "once s \<Longrightarrow> snd (run cs s) = s \<and>
     (\<forall>r\<in>set (fst (run cs s)). r = Modules [asyncMod s] (asyncModErr s) \<or> r = Got (globalBackend s))"
  by (induction cs) (auto simp: call_done case_prod_beta split: Call.splits)

lemma run_no_install:
  "firstInstall cs = None \<Longrightarrow> snd (run cs s) = s \<and>
     (\<forall>r\<in>set (fst (run cs s)). r = Got (globalBackend s))"
  by (induction cs rule: firstInstall.induct) (auto simp: case_prod_beta GlobalBackend_def)

lemma run_first_install:
  "firstInstall cs = Some (createFunc, mi) \<Longrightarrow> \<not> once s \<Longrightarrow>
     snd (run cs s) = snd (NewModule createFunc mi s) \<and>
     (\<forall>r\<in>set (fst (run cs s)). r = Got (globalBackend s) \<or>
        r = fst (call (Install createFunc mi) s) \<or>
        r = Got (globalBackend (snd (NewModule createFunc mi s))))"
proof (induction cs rule: firstInstall.induct)
  case 1
  then show ?case by simp
next
  case (2 f m cs)
  then have eq: "f = createFunc" "m = mi" by simp_all
  have d: "once (snd (NewModule createFunc mi s))"
    using 2(2) by (simp add: NewModule_first split: prod.splits option.splits)
  have r: "fst (call (Install createFunc mi) s) =
      Modules [asyncMod (snd (NewModule createFunc mi s))] (asyncModErr (snd (NewModule createFunc mi s)))"
    using 2(2) by (simp add: NewModule_first case_prod_beta split: prod.splits option.splits)
  show ?case
    using run_done[OF d, of cs] r unfolding eq run_Cons
    by (auto simp: case_prod_beta)
next
  case (3 cs)
  then show ?case by (auto simp: case_prod_beta GlobalBackend_def)
qed

lemmas task_defs = initGlobals_def NewModule_def newAsyncModuleSingleton_def once_Do_def
  newAsyncModule_def runFactory_def SetupTaskMetrics_def GlobalBackend_def NewModuleBase_def
  exampleInfo_def exampleHost_def memBackendFn_def errBackendFn_def nopBackendFn_def
  memModule_def nopModule_def memGlobals_def nopGlobals_def errGlobals_def

lemma exampleCalls_run: "run exampleCalls initGlobals =
  ([Got (Some NopBackend), Modules [Some memModule] None, Modules [Some memModule] None,
    Got (Some (CustomBackend 1)), Modules [Some memModule] None], memGlobals)"
  by (simp add: exampleCalls_def task_defs)

lemma reachable_cases:
  assumes "run cs initGlobals = (rs, s)"
  shows "s = initGlobals \<or> (\<exists>createFunc mi. s = snd (NewModule createFunc mi initGlobals))"
proof (cases "firstInstall cs")
  case None
  with run_no_install[OF None, of initGlobals] assms show ?thesis by simp
next
  case (Some p)
  obtain f mi where p: "p = (f, mi)" by (cases p)
  with run_first_install[of cs f mi initGlobals] Some assms once_init show ?thesis by auto
qed

text \<open>The states the package can be in: the initial one, one after a successful first call, one after a failed first call.\<close>

lemma NewModule_init_ok:
  "createFunc (Host mi) = (b, None) \<Longrightarrow>
   NewModule createFunc mi initGlobals =
     (([Some \<lparr>Backend = b, modBase = NewModuleBase ''task'' (Host mi) []\<rparr>], None),
      \<lparr>globalBackend = b,
       asyncMod = Some \<lparr>Backend = b, modBase = NewModuleBase ''task'' (Host mi) []\<rparr>,
       asyncModErr = None, once = True, taskMetrics = [Metrics (Host mi)],
       factoryRuns = [(b, None)]\<rparr>)"
  by (simp add: NewModule_first once_init) (simp add: initGlobals_def)

lemma NewModule_init_err:
  "createFunc (Host mi) = (b, Some e) \<Longrightarrow>
   NewModule createFunc mi initGlobals =
     (([None], Some e),
      \<lparr>globalBackend = Some NopBackend, asyncMod = None,
       asyncModErr = Some e, once = True, taskMetrics = [Metrics (Host mi)],
       factoryRuns = [(b, Some e)]\<rparr>)"
  by (simp add: NewModule_first once_init) (simp add: initGlobals_def)

lemma reachable_forms:
  assumes "run cs initGlobals = (rs, s)"
  shows "s = initGlobals \<or>
    (\<exists>b m sc. s = \<lparr>globalBackend = b, asyncMod = Some m, asyncModErr = None, once = True,
        taskMetrics = [sc], factoryRuns = [(b, None)]\<rparr> \<and> Backend m = b) \<or>
    (\<exists>b e sc. s = \<lparr>globalBackend = Some NopBackend, asyncMod = None, asyncModErr = Some e,
        once = True, taskMetrics = [sc], factoryRuns = [(b, Some e)]\<rparr>)"
proof -
  from reachable_cases[OF assms] consider "s = initGlobals"
    | f mi where "s = snd (NewModule f mi initGlobals)" by auto
  then show ?thesis
  proof cases
    case 1
    then show ?thesis by simp
  next
    case 2
    obtain b e where fr: "f (Host mi) = (b, e)" by (cases "f (Host mi)")
    show ?thesis
    proof (cases e)
      case None
      with NewModule_init_ok[of f mi b] fr 2 show ?thesis by simp
    next
      case (Some e')
      with NewModule_init_err[of f mi b e'] fr 2 show ?thesis by simp
    qed
  qed
qed


lemma first_install_reply:
  "firstInstall cs = Some (createFunc, mi) \<Longrightarrow>
     fst (call (Install createFunc mi) s) \<in> set (fst (run cs s))"
  by (induction cs arbitrary: s rule: firstInstall.induct) (auto simp: case_prod_beta)

lemma call_Install_init_ok:
  "createFunc (Host mi) = (b, None) \<Longrightarrow>
   call (Install createFunc mi) initGlobals =
     (Modules [Some \<lparr>Backend = b, modBase = NewModuleBase ''task'' (Host mi) []\<rparr>] None,
      \<lparr>globalBackend = b,
       asyncMod = Some \<lparr>Backend = b, modBase = NewModuleBase ''task'' (Host mi) []\<rparr>,
       asyncModErr = None, once = True, taskMetrics = [Metrics (Host mi)],
       factoryRuns = [(b, None)]\<rparr>)"
  by (simp add: NewModule_init_ok)

lemma call_Install_init_err:
  "createFunc (Host mi) = (b, Some e) \<Longrightarrow>
   call (Install createFunc mi) initGlobals =
     (Modules [None] (Some e),
      \<lparr>globalBackend = Some NopBackend, asyncMod = None,
       asyncModErr = Some e, once = True, taskMetrics = [Metrics (Host mi)],
       factoryRuns = [(b, Some e)]\<rparr>)"
  by (simp add: NewModule_init_err)

subsection \<open>The example sequences\<close>

lemma errCalls_run: "run errCalls initGlobals =
  ([Got (Some NopBackend), Modules [None] (Some exampleError), Got (Some NopBackend),
    Modules [None] (Some exampleError), Got (Some NopBackend)], errGlobals)"
  by (simp add: errCalls_def exampleError_def task_defs)

lemma Current_run: "run [Current] initGlobals = ([Got (Some NopBackend)], initGlobals)"
  by (simp add: task_defs)

lemma errBackendFn_fails: "snd (errBackendFn (Host exampleInfo)) = Some exampleError"
  by (simp add: exampleError_def task_defs)


lemma call_err_init:
  "call (Install errBackendFn exampleInfo) initGlobals = (Modules [None] (Some exampleError), errGlobals)"
  by (simp add: exampleError_def task_defs)

lemma call_mem_init:
  "call (Install memBackendFn exampleInfo) initGlobals = (Modules [Some memModule] None, memGlobals)"
  by (simp add: task_defs)

lemma laterCalls_run_err: "run laterCalls errGlobals =
  ([Modules [None] (Some exampleError), Got (Some NopBackend),
    Modules [None] (Some exampleError), Got (Some NopBackend)], errGlobals)"
  by (simp add: laterCalls_def exampleError_def task_defs)

lemma laterCalls_run_mem: "run laterCalls memGlobals =
  ([Modules [Some memModule] None, Got (Some (CustomBackend 1)),
    Modules [Some memModule] None, Got (Some (CustomBackend 1))], memGlobals)"
  by (simp add: laterCalls_def task_defs)

lemma NewModule_mem_err:
  "NewModule memBackendFn exampleInfo errGlobals = (([None], Some exampleError), errGlobals)"
  by (simp add: exampleError_def task_defs)

subsection \<open>The factory runs once\<close>

text \<open>
  Claim C1. For every sequence of calls, made from the initial state of the package, to
  the function returned by \<open>NewModule\<close> (interleaved with calls of \<open>GlobalBackend\<close>): at
  most one execution of a factory takes place; any two calls of the creation function
  return the same module slice and the same error; and when the sequence has a first
  creation call, the one execution is that of its factory at its host, and every creation
  call returns what that first call returned, so the factory argument of each later call
  is ignored.
\<close>

theorem NewModule_runs_factory_once:
  assumes "run cs initGlobals = (rs, s)"
  shows "length (factoryRuns s) \<le> 1 \<and>
    (\<forall>r\<in>set rs. \<forall>r'\<in>set rs. isModules r \<and> isModules r' \<longrightarrow> r = r') \<and>
    (case firstInstall cs of
       None \<Rightarrow> factoryRuns s = []
     | Some (createFunc, mi) \<Rightarrow>
         factoryRuns s = [createFunc (Host mi)] \<and>
         (\<forall>r\<in>set rs. isModules r \<longrightarrow> r = fst (call (Install createFunc mi) initGlobals)))"
proof (cases "firstInstall cs")
  case None
  with run_no_install[OF None, of initGlobals] assms show ?thesis
    by (auto simp: initGlobals_def)
next
  case (Some p)
  obtain f mi where p: "p = (f, mi)" by (cases p)
  have fi: "firstInstall cs = Some (f, mi)" using Some p by simp
  have runs: "factoryRuns (snd (NewModule f mi initGlobals)) = [f (Host mi)]"
    by (simp add: NewModule_first once_init split: prod.splits option.splits)
      (simp add: initGlobals_def)
  have m: "isModules (fst (call (Install f mi) initGlobals))"
    by (simp add: case_prod_beta)
  from run_first_install[OF fi once_init] assms
  have s: "s = snd (NewModule f mi initGlobals)"
    and rs: "\<forall>r\<in>set rs. isModules r \<longrightarrow> r = fst (call (Install f mi) initGlobals)"
    by auto
  from s runs rs show ?thesis unfolding fi by auto
qed

theorem NewModule_runs_factory_once_witness:
  "run exampleCalls initGlobals =
     ([Got (Some NopBackend), Modules [Some memModule] None, Modules [Some memModule] None,
       Got (Some (CustomBackend 1)), Modules [Some memModule] None], memGlobals) \<and>
   length (factoryRuns memGlobals) \<le> 1 \<and>
   factoryRuns memGlobals = [memBackendFn (Host exampleInfo)] \<and>
   firstInstall exampleCalls = Some (memBackendFn, exampleInfo) \<and>
   fst (call (Install memBackendFn exampleInfo) initGlobals) = Modules [Some memModule] None"
  using NewModule_runs_factory_once [OF exampleCalls_run]
  by (simp add: exampleCalls_run) (simp add: exampleCalls_def task_defs)

subsection \<open>Before a successful installation\<close>

text \<open>
  Claim C2. As long as no call of the creation function has returned without an error
  (none was made, or every one returned an error), every call of \<open>GlobalBackend\<close>
  returns the no-op backend the package variable is initialised with: each such call made
  during the sequence did, and so does one made after it.
\<close>

theorem GlobalBackend_default:
  assumes "run cs initGlobals = (rs, s)"
    and "\<forall>ms err. Modules ms err \<in> set rs \<longrightarrow> err \<noteq> None"
  shows "GlobalBackend s = Some NopBackend \<and> (\<forall>b. Got b \<in> set rs \<longrightarrow> b = Some NopBackend)"
proof (cases "firstInstall cs")
  case None
  with run_no_install[OF None, of initGlobals] assms(1) show ?thesis
    by (auto simp: initGlobals_def GlobalBackend_def)
next
  case (Some p)
  obtain f mi where fi: "firstInstall cs = Some (f, mi)" using Some by (cases p) simp
  obtain b e where fr: "f (Host mi) = (b, e)" by (cases "f (Host mi)")
  have mem: "fst (call (Install f mi) initGlobals) \<in> set rs"
    using first_install_reply[OF fi, of initGlobals] assms(1) by simp
  have "e \<noteq> None"
  proof
    assume "e = None"
    with fr have "call (Install f mi) initGlobals =
      (Modules [Some \<lparr>Backend = b, modBase = NewModuleBase ''task'' (Host mi) []\<rparr>] None,
       snd (call (Install f mi) initGlobals))"
      using call_Install_init_ok[of f mi b] by simp
    with mem have "Modules [Some \<lparr>Backend = b, modBase = NewModuleBase ''task'' (Host mi) []\<rparr>] None
      \<in> set rs" by (metis fst_conv)
    with assms(2) show False by blast
  qed
  then obtain e' where e: "e = Some e'" by auto
  from run_first_install[OF fi once_init] assms(1) fr e
  show ?thesis
    by (auto simp: NewModule_init_err GlobalBackend_def) (auto simp: initGlobals_def)
qed

theorem GlobalBackend_default_witness:
  "run errCalls initGlobals =
     ([Got (Some NopBackend), Modules [None] (Some exampleError), Got (Some NopBackend),
       Modules [None] (Some exampleError), Got (Some NopBackend)], errGlobals) \<and>
   GlobalBackend errGlobals = Some NopBackend"
proof -
  have h: "\<forall>ms err. Modules ms err \<in> set [Got (Some NopBackend), Modules [None] (Some exampleError),
      Got (Some NopBackend), Modules [None] (Some exampleError), Got (Some NopBackend)]
    \<longrightarrow> err \<noteq> None" by simp
  from GlobalBackend_default[OF errCalls_run h] show ?thesis
    by (simp add: laterCalls_def errCalls_def exampleCalls_def exampleError_def task_defs)
qed

subsection \<open>A failing factory\<close>




text \<open>
  Claim C4. After a first creation call whose factory returned an error, every later
  creation call, whatever its factory, returns a nil module with that same error, and no
  factory is executed again: the only execution on record is the first one.
\<close>

theorem failed_install_is_terminal:
  assumes "run cs initGlobals = (rs, s)" and "firstInstall cs = None"
    and "snd (createFunc (Host mi)) = Some e"
    and "call (Install createFunc mi) s = (r1, s1)"
    and "run cs' s1 = (rs', s2)"
  shows "r1 = Modules [None] (Some e) \<and>
    (\<forall>r\<in>set rs'. isModules r \<longrightarrow> r = Modules [None] (Some e)) \<and>
    factoryRuns s1 = [createFunc (Host mi)] \<and> factoryRuns s2 = factoryRuns s1"
proof -
  obtain b where fr: "createFunc (Host mi) = (b, Some e)"
    using assms(3) by (cases "createFunc (Host mi)") simp
  have s: "s = initGlobals"
    using run_no_install[OF assms(2), of initGlobals] assms(1) by simp
  from assms(4) have r1: "r1 = Modules [None] (Some e)"
    and s1: "s1 = \<lparr>globalBackend = Some NopBackend, asyncMod = None,
       asyncModErr = Some e, once = True, taskMetrics = [Metrics (Host mi)],
       factoryRuns = [(b, Some e)]\<rparr>"
    unfolding s call_Install_init_err[of createFunc mi b e, OF fr] by simp_all
  have d: "once s1" by (simp add: s1)
  from run_done[OF d, of cs'] assms(5)
  have "s2 = s1" and "\<forall>r\<in>set rs'. r = Modules [asyncMod s1] (asyncModErr s1) \<or> r = Got (globalBackend s1)"
    by simp_all
  then show ?thesis using r1 fr by (auto simp: s1)
qed

theorem failed_install_is_terminal_witness:
  "run [Current] initGlobals = ([Got (Some NopBackend)], initGlobals) \<and>
   firstInstall [Current] = None \<and>
   snd (errBackendFn (Host exampleInfo)) = Some exampleError \<and>
   call (Install errBackendFn exampleInfo) initGlobals = (Modules [None] (Some exampleError), errGlobals) \<and>
   run laterCalls errGlobals =
     ([Modules [None] (Some exampleError), Got (Some NopBackend),
       Modules [None] (Some exampleError), Got (Some NopBackend)], errGlobals) \<and>
   factoryRuns errGlobals = [errBackendFn (Host exampleInfo)]"
proof -
  have h: "firstInstall [Current] = None" by simp
  from failed_install_is_terminal[OF Current_run h errBackendFn_fails call_err_init
      laterCalls_run_err]
  show ?thesis
    by (simp add: laterCalls_def errCalls_def exampleCalls_def exampleError_def task_defs)
qed

subsection \<open>After a successful installation\<close>

text \<open>
  Claim C5 says that after a successful installation \<open>GlobalBackend\<close> never again
  returns the no-op backend. A factory may return the no-op backend itself, as one that
  returns \<open>GlobalBackend()\<close> does: the installation succeeds, and the next call of
  \<open>GlobalBackend\<close> returns the no-op backend.
\<close>

theorem no_op_backend_after_install_counterexample:
  "run [Install nopBackendFn exampleInfo, Current] initGlobals =
     ([Modules [Some nopModule] None, Got (Some NopBackend)], nopGlobals)"
  by (simp add: task_defs)

text \<open>
  Claim C5, as amended. Once a creation call has returned a module without an error,
  \<open>GlobalBackend\<close> returns the backend of that module, right after the call and after
  every later sequence of calls, and every call of \<open>GlobalBackend\<close> in such a sequence
  returns it: no later call reverts or replaces it. The no-op backend is returned again
  only when the installed backend is the no-op backend.
\<close>

theorem installed_backend_is_permanent:
  assumes "run cs initGlobals = (rs, s)"
    and "call (Install createFunc mi) s = (Modules [Some m] None, s1)"
    and "run cs' s1 = (rs', s2)"
  shows "GlobalBackend s1 = Backend m \<and> GlobalBackend s2 = Backend m \<and>
    (\<forall>b. Got b \<in> set rs' \<longrightarrow> b = Backend m) \<and>
    (Backend m \<noteq> Some NopBackend \<longrightarrow>
       GlobalBackend s2 \<noteq> Some NopBackend \<and> Got (Some NopBackend) \<notin> set rs')"
proof -
  have s1: "once s1 \<and> globalBackend s1 = Backend m"
    using reachable_forms[OF assms(1)]
  proof (elim disjE exE conjE)
    assume s: "s = initGlobals"
    obtain b e where fr: "createFunc (Host mi) = (b, e)" by (cases "createFunc (Host mi)")
    show ?thesis
    proof (cases e)
      case None
      with assms(2) fr show ?thesis
        unfolding s by (simp only: call_Install_init_ok[of createFunc mi b]) auto
    next
      case (Some e')
      with assms(2) fr show ?thesis
        unfolding s by (simp only: call_Install_init_err[of createFunc mi b e']) auto
    qed
  next
    fix b m' sc
    assume s: "s = \<lparr>globalBackend = b, asyncMod = Some m', asyncModErr = None, once = True,
        taskMetrics = [sc], factoryRuns = [(b, None)]\<rparr>" and m': "Backend m' = b"
    have "once s" by (simp add: s)
    from call_done[OF this, of "Install createFunc mi"] assms(2) m' show ?thesis
      by (auto simp: s)
  next
    fix b e sc
    assume s: "s = \<lparr>globalBackend = Some NopBackend, asyncMod = None, asyncModErr = Some e,
        once = True, taskMetrics = [sc], factoryRuns = [(b, Some e)]\<rparr>"
    have "once s" by (simp add: s)
    from call_done[OF this, of "Install createFunc mi"] assms(2) show ?thesis
      by (auto simp: s)
  qed
  then have d: "once s1" and g: "globalBackend s1 = Backend m" by simp_all
  from run_done[OF d, of cs'] assms(3)
  have "s2 = s1" and "\<forall>r\<in>set rs'. r = Modules [asyncMod s1] (asyncModErr s1) \<or> r = Got (globalBackend s1)"
    by simp_all
  with g show ?thesis by (auto simp: GlobalBackend_def)
qed

theorem installed_backend_is_permanent_witness:
  "run [Current] initGlobals = ([Got (Some NopBackend)], initGlobals) \<and>
   call (Install memBackendFn exampleInfo) initGlobals = (Modules [Some memModule] None, memGlobals) \<and>
   run laterCalls memGlobals =
     ([Modules [Some memModule] None, Got (Some (CustomBackend 1)),
       Modules [Some memModule] None, Got (Some (CustomBackend 1))], memGlobals) \<and>
   Backend memModule = Some (CustomBackend 1) \<and>
   Backend memModule \<noteq> Some NopBackend \<and>
   GlobalBackend memGlobals = Backend memModule"
  using installed_backend_is_permanent[OF Current_run call_mem_init laterCalls_run_mem]
  by (simp add: laterCalls_def errCalls_def exampleCalls_def exampleError_def task_defs)

subsection \<open>The values of the global backend\<close>

text \<open>
  Claim C6. In every state the package reaches, the global backend is the initial no-op
  backend or the backend returned by the only factory execution on record, which
  succeeded; at most one factory execution ever succeeds, so at most one backend is ever
  installed; and every call of \<open>GlobalBackend\<close> made on the way returned one of these two
  values.
\<close>

theorem globalBackend_nop_or_installed:
  assumes "run cs initGlobals = (rs, s)"
  shows "(GlobalBackend s = Some NopBackend \<or> factoryRuns s = [(GlobalBackend s, None)]) \<and>
    length (filter (\<lambda>r. snd r = None) (factoryRuns s)) \<le> 1 \<and>
    (\<forall>b. Got b \<in> set rs \<longrightarrow> b = Some NopBackend \<or> factoryRuns s = [(b, None)])"
proof -
  have a: "(GlobalBackend s = Some NopBackend \<or> factoryRuns s = [(GlobalBackend s, None)]) \<and>
    length (filter (\<lambda>r. snd r = None) (factoryRuns s)) \<le> 1"
    using reachable_forms[OF assms]
  proof (elim disjE exE conjE)
    assume "s = initGlobals"
    then show ?thesis by (simp add: GlobalBackend_def initGlobals_def)
  next
    fix b m' sc
    assume "s = \<lparr>globalBackend = b, asyncMod = Some m', asyncModErr = None, once = True,
        taskMetrics = [sc], factoryRuns = [(b, None)]\<rparr>"
    then show ?thesis by (simp add: GlobalBackend_def)
  next
    fix b e sc
    assume "s = \<lparr>globalBackend = Some NopBackend, asyncMod = None, asyncModErr = Some e,
        once = True, taskMetrics = [sc], factoryRuns = [(b, Some e)]\<rparr>"
    then show ?thesis by (simp add: GlobalBackend_def)
  qed
  have b: "\<forall>b. Got b \<in> set rs \<longrightarrow> b = Some NopBackend \<or> b = GlobalBackend s"
  proof (cases "firstInstall cs")
    case None
    with run_no_install[OF None, of initGlobals] assms show ?thesis
      by (auto simp: initGlobals_def)
  next
    case (Some p)
    obtain f mi where fi: "firstInstall cs = Some (f, mi)" using Some by (cases p) simp
    have all: "\<forall>r\<in>set rs. r = Got (Some NopBackend) \<or>
        r = fst (call (Install f mi) initGlobals) \<or> r = Got (globalBackend s)"
      using run_first_install[OF fi once_init] assms by (simp add: initGlobals_def)
    have m: "isModules (fst (call (Install f mi) initGlobals))"
      by (simp add: case_prod_beta)
    show ?thesis
    proof (intro allI impI)
      fix b assume "Got b \<in> set rs"
      with all have "Got b = Got (Some NopBackend) \<or>
        Got b = fst (call (Install f mi) initGlobals) \<or> Got b = Got (globalBackend s)"
        by blast
      moreover have "Got b \<noteq> fst (call (Install f mi) initGlobals)"
        using m by (metis isModules.simps(2))
      ultimately show "b = Some NopBackend \<or> b = GlobalBackend s"
        by (simp add: GlobalBackend_def del: call.simps)
    qed
  qed
  from a b show ?thesis by blast
qed

theorem globalBackend_nop_or_installed_witness:
  "run exampleCalls initGlobals =
     ([Got (Some NopBackend), Modules [Some memModule] None, Modules [Some memModule] None,
       Got (Some (CustomBackend 1)), Modules [Some memModule] None], memGlobals) \<and>
   GlobalBackend memGlobals = Some (CustomBackend 1) \<and>
   factoryRuns memGlobals = [(Some (CustomBackend 1), None)]"
  using globalBackend_nop_or_installed[OF exampleCalls_run]
  by (simp add: laterCalls_def errCalls_def exampleCalls_def exampleError_def task_defs)

subsection \<open>The returned slice\<close>

text \<open>
  Claim C9. In every state the package reaches, the function returned by \<open>NewModule\<close>
  returns a slice of exactly one element, and when it returns an error that element is
  the nil module.
\<close>

theorem NewModule_returns_one_module:
  assumes "run cs initGlobals = (rs, s)"
    and "NewModule createFunc mi s = ((ms, err), s')"
  shows "length ms = 1 \<and> (err \<noteq> None \<longrightarrow> ms = [None])"
  using reachable_forms[OF assms(1)]
proof (elim disjE exE conjE)
  assume s: "s = initGlobals"
  obtain b e where fr: "createFunc (Host mi) = (b, e)" by (cases "createFunc (Host mi)")
  show ?thesis
  proof (cases e)
    case None
    with assms(2) fr show ?thesis
      unfolding s by (simp only: NewModule_init_ok[of createFunc mi b]) auto
  next
    case (Some e')
    with assms(2) fr show ?thesis
      unfolding s by (simp only: NewModule_init_err[of createFunc mi b e']) auto
  qed
next
  fix b m' sc
  assume s: "s = \<lparr>globalBackend = b, asyncMod = Some m', asyncModErr = None, once = True,
      taskMetrics = [sc], factoryRuns = [(b, None)]\<rparr>"
  have "once s" by (simp add: s)
  from NewModule_done[OF this, of createFunc mi] assms(2) show ?thesis
    by (auto simp: s)
next
  fix b e sc
  assume s: "s = \<lparr>globalBackend = Some NopBackend, asyncMod = None, asyncModErr = Some e,
      once = True, taskMetrics = [sc], factoryRuns = [(b, Some e)]\<rparr>"
  have "once s" by (simp add: s)
  from NewModule_done[OF this, of createFunc mi] assms(2) show ?thesis
    by (auto simp: s)
qed

theorem NewModule_returns_one_module_witness:
  "run errCalls initGlobals =
     ([Got (Some NopBackend), Modules [None] (Some exampleError), Got (Some NopBackend),
       Modules [None] (Some exampleError), Got (Some NopBackend)], errGlobals) \<and>
   NewModule memBackendFn exampleInfo errGlobals = (([None], Some exampleError), errGlobals) \<and>
   length [None :: AsyncModule option] = 1"
  using NewModule_returns_one_module[OF errCalls_run NewModule_mem_err]
  by (simp add: laterCalls_def errCalls_def exampleCalls_def exampleError_def task_defs)

section \<open>Properties of the filter option\<close>

text \<open>
  Claim C7. For every creation record, \<open>filtersFromCreateInfo\<close> returns the nil slice
  when the item bag has no value under the filter key (a nil bag included), returns the
  stored slice when the value stored there has dynamic type \<open>[]Filter\<close>, and panics on
  the type assertion when any other value is stored there.
\<close>

theorem filtersFromCreateInfo_spec:
  "(map_lookup (Items mci) filterKey = None \<longrightarrow> filtersFromCreateInfo mci = Inr NilSlice) \<and>
   (\<forall>fs. map_lookup (Items mci) filterKey = Some (FilterSlice fs) \<longrightarrow>
      filtersFromCreateInfo mci = Inr fs) \<and>
   (\<forall>v. map_lookup (Items mci) filterKey = Some v \<and> (\<forall>fs. v \<noteq> FilterSlice fs) \<longrightarrow>
      filtersFromCreateInfo mci = Inl TypeAssertionPanic)"
  by (auto simp: filtersFromCreateInfo_def split: option.splits iface.splits)

theorem filtersFromCreateInfo_spec_witness:
  "map_lookup (Items exampleInfo) filterKey = None \<and>
   filtersFromCreateInfo exampleInfo = Inr NilSlice \<and>
   map_lookup (Items filterInfo) filterKey = Some (FilterSlice (Slice [Filter 0])) \<and>
   filtersFromCreateInfo filterInfo = Inr (Slice [Filter 0]) \<and>
   map_lookup (Items badInfo) filterKey = Some (OtherValue 7) \<and>
   filtersFromCreateInfo badInfo = Inl TypeAssertionPanic"
proof -
  have a: "map_lookup (Items exampleInfo) filterKey = None"
    by (simp add: map_lookup_def exampleInfo_def)
  have b: "map_lookup (Items filterInfo) filterKey = Some (FilterSlice (Slice [Filter 0]))"
    by (simp add: map_lookup_def filterInfo_def)
  have c: "map_lookup (Items badInfo) filterKey = Some (OtherValue 7)"
    by (simp add: map_lookup_def badInfo_def)
  have d: "\<forall>fs. OtherValue 7 \<noteq> FilterSlice fs" by simp
  from filtersFromCreateInfo_spec[of exampleInfo] filtersFromCreateInfo_spec[of filterInfo]
    filtersFromCreateInfo_spec[of badInfo] a b c d
  show ?thesis by simp
qed

lemma WithFilters_ok:
  assumes "filtersFromCreateInfo mci = Inr old"
  shows "WithFilters fs mci =
     Inr (None, mci\<lparr>Items := Some ((case Items mci of None \<Rightarrow> Map.empty | Some m \<Rightarrow> m)
                      (filterKey \<mapsto> FilterSlice (append_slice old fs)))\<rparr>)"
  using assms by (simp add: WithFilters_def Let_def split: option.splits)

lemma filters_after_store:
  "filtersFromCreateInfo (mci\<lparr>Items := Some (m(filterKey \<mapsto> FilterSlice s))\<rparr>) = Inr s"
  by (simp add: filtersFromCreateInfo_def map_lookup_def)

lemma elems_append_slice: "elems (append_slice s xs) = elems s @ xs"
  by (simp add: append_slice_def)

lemma applyOptions_WithFilters:
  "filtersFromCreateInfo mci = Inr old \<Longrightarrow>
   \<exists>mci' new. applyOptions (map WithFilters fss) mci = Inr (None, mci') \<and>
      filtersFromCreateInfo mci' = Inr new \<and> elems new = elems old @ concat fss \<and>
      Host mci' = Host mci"
proof (induction fss arbitrary: mci old)
  case Nil
  then show ?case by simp
next
  case (Cons fs fss)
  let ?mci1 = "mci\<lparr>Items := Some ((case Items mci of None \<Rightarrow> Map.empty | Some m \<Rightarrow> m)
                      (filterKey \<mapsto> FilterSlice (append_slice old fs)))\<rparr>"
  have w: "WithFilters fs mci = Inr (None, ?mci1)" by (rule WithFilters_ok[OF Cons.prems])
  have f: "filtersFromCreateInfo ?mci1 = Inr (append_slice old fs)" by (rule filters_after_store)
  from Cons.IH[OF f] obtain mci' new where
    "applyOptions (map WithFilters fss) ?mci1 = Inr (None, mci')"
    "filtersFromCreateInfo mci' = Inr new" "elems new = elems (append_slice old fs) @ concat fss"
    "Host mci' = Host ?mci1" by blast
  with w show ?case by (simp add: elems_append_slice)
qed

text \<open>
  Claim C8. On a record whose item bag holds no value or a filter slice \<open>old\<close> under the
  filter key, the option returned by \<open>WithFilters fs\<close> returns no error and leaves the
  record holding the slice \<open>append(old, fs...)\<close>, whose elements are those of \<open>old\<close>
  followed by \<open>fs\<close>; applying the options of a list of filter lists one after the other
  leaves the elements of \<open>old\<close> followed by all the given filters, in the order of
  application.
\<close>

theorem WithFilters_appends:
  assumes "filtersFromCreateInfo mci = Inr old"
  shows "(\<exists>mci'. WithFilters fs mci = Inr (None, mci') \<and>
            filtersFromCreateInfo mci' = Inr (append_slice old fs) \<and>
            elems (append_slice old fs) = elems old @ fs) \<and>
         (\<exists>mci' new. applyOptions (map WithFilters fss) mci = Inr (None, mci') \<and>
            filtersFromCreateInfo mci' = Inr new \<and> elems new = elems old @ concat fss)"
proof -
  have 1: "\<exists>mci'. WithFilters fs mci = Inr (None, mci') \<and>
            filtersFromCreateInfo mci' = Inr (append_slice old fs) \<and>
            elems (append_slice old fs) = elems old @ fs"
    using WithFilters_ok[OF assms, of fs] filters_after_store elems_append_slice by metis
  from applyOptions_WithFilters[OF assms, of fss] have 2:
    "\<exists>mci' new. applyOptions (map WithFilters fss) mci = Inr (None, mci') \<and>
            filtersFromCreateInfo mci' = Inr new \<and> elems new = elems old @ concat fss"
    by blast
  from 1 2 show ?thesis by blast
qed

theorem WithFilters_appends_witness:
  "filtersFromCreateInfo filterInfo = Inr (Slice [Filter 0]) \<and>
   (\<exists>mci'. WithFilters exampleFilters filterInfo = Inr (None, mci') \<and>
      filtersFromCreateInfo mci' = Inr (Slice [Filter 0, Filter 1, Filter 2])) \<and>
   (\<exists>mci' new. applyOptions (map WithFilters exampleFilterLists) filterInfo = Inr (None, mci') \<and>
      filtersFromCreateInfo mci' = Inr new \<and>
      elems new = [Filter 0, Filter 1, Filter 2, Filter 3])"
proof -
  have h: "filtersFromCreateInfo filterInfo = Inr (Slice [Filter 0])"
    by (simp add: filtersFromCreateInfo_def map_lookup_def filterInfo_def)
  from WithFilters_appends[OF h, of exampleFilters exampleFilterLists] h
  show ?thesis
    by (simp add: append_slice_def exampleFilters_def exampleFilterLists_def)
qed

section \<open>Properties of the random names\<close>









end
